theory Spec2Isabelle
  imports Main "HOL-Library.AList" "HOL-Library.Char_ord" "HOL-Library.List_Lexorder"
begin

section \<open>The bookmark server: a shallow embedding of BookmarkServer.py\<close>

text \<open>
  Python text is modelled as \<^typ>\<open>string\<close>, read as the UTF-8 bytes of the text, so that
  Python's code point order on \<open>str\<close> is the lexicographic order on the bytes.
  The global dictionary \<open>memory\<close> is an association list: a Python dictionary keeps its
  keys in insertion order, and \<open>memory[k] = v\<close> replaces the value of an existing key in
  place and appends a new key, which is \<^const>\<open>AList.update\<close>.
  Every exception the handlers can meet is a value of \<open>pyerror\<close>; a handler returns
  either the exception that escapes it or the response it has sent, together with the
  dictionary it leaves behind.
\<close>

subsection \<open>Exceptions, values, requests and responses\<close>

datatype pyerror =
    KeyError
  | IndexError
  | ValueError
  | UnicodeDecodeError
  | CookieError
  | RequestException
  | OtherException

text \<open>The three values \<open>CheckURI\<close> can return, and Python's truth test on them.\<close>

datatype pyval = PyTrue | PyFalse | PyNone

fun truthy :: "pyval \<Rightarrow> bool" where
  "truthy PyTrue = True"
| "truthy PyFalse = False"
| "truthy PyNone = False"

text \<open>
  What a handler reads of a request: \<open>self.path\<close>, the \<open>Cookie\<close> header
  (\<open>None\<close> when \<open>'cookie' in self.headers\<close> is false), the \<open>Content-length\<close> header
  (\<open>None\<close> when absent) and the bytes the client sends after the headers.
\<close>

record request =
  path :: string
  cookie :: "string option"
  content_length :: "string option"
  rfile :: string

text \<open>
  What a handler sends: the status of \<open>send_response\<close>, the headers of \<open>send_header\<close>
  in order, and the bytes written to \<open>wfile\<close>.
\<close>

record response =
  status :: nat
  headers :: "(string \<times> string) list"
  wfile :: string

type_synonym registry = "(string \<times> string) list"

type_synonym outcome = "(pyerror + response) \<times> registry"

subsection \<open>The standard library and the network\<close>

text \<open>
  The parts of the Python standard library whose code is not in the repository are
  parameters of the model:
  \<^item> \<open>percent_decode\<close>: what \<open>urllib.parse.unquote\<close> returns on text that contains \<open>%\<close>;
  \<^item> \<open>SimpleCookie\<close>: \<open>http.cookies.SimpleCookie(header)\<close>, the value of each cookie it
    parsed, or the exception it raised;
  \<^item> \<open>py_int\<close>: \<open>int(s)\<close> on a header value;
  \<^item> \<open>decode\<close>: \<open>bytes.decode()\<close>;
  \<^item> \<open>cookie_quote\<close>: the coded value \<open>SimpleCookie\<close> stores for a value it is given.
\<close>

record pylib =
  percent_decode :: "string \<Rightarrow> string"
  SimpleCookie :: "string \<Rightarrow> pyerror + (string \<Rightarrow> string option)"
  py_int :: "string \<Rightarrow> pyerror + int"
  decode :: "string \<Rightarrow> pyerror + string"
  cookie_quote :: "string \<Rightarrow> string"

text \<open>
  \<open>requests.get(uri, timeout=timeout)\<close>: the status code of the response, or the
  exception raised. The network can answer differently at different times, so it is an
  argument of each call rather than part of the library.
\<close>

type_synonym network = "string \<Rightarrow> int \<Rightarrow> pyerror + int"

text \<open>\<open>unquote\<close> returns its argument unchanged when it holds no \<open>%\<close>.\<close>

definition unquote :: "pylib \<Rightarrow> string \<Rightarrow> string" where
  "unquote lib s = (if CHR ''%'' \<in> set s then percent_decode lib s else s)"

definition unquote_plus :: "pylib \<Rightarrow> string \<Rightarrow> string" where
  "unquote_plus lib s = unquote lib (map (\<lambda>c. if c = CHR ''+'' then CHR '' '' else c) s)"

text \<open>\<open>str.split(sep)\<close> and \<open>str.partition(sep)\<close> for a separator of one character.\<close>

fun str_split :: "char \<Rightarrow> string \<Rightarrow> string list" where
  "str_split sep [] = [[]]"
| "str_split sep (c # cs) =
     (if c = sep then [] # str_split sep cs
      else (case str_split sep cs of
              [] \<Rightarrow> [[c]]
            | p # ps \<Rightarrow> (c # p) # ps))"

fun str_partition :: "char \<Rightarrow> string \<Rightarrow> string \<times> bool \<times> string" where
  "str_partition sep [] = ([], False, [])"
| "str_partition sep (c # cs) =
     (if c = sep then ([], True, cs)
      else (case str_partition sep cs of (before, has_sep, after) \<Rightarrow> (c # before, has_sep, after)))"

text \<open>
  \<open>urllib.parse.parse_qsl\<close> with its default arguments (\<open>keep_blank_values\<close> and
  \<open>strict_parsing\<close> false, separator \<open>&\<close>): a pair whose value is blank is skipped.
\<close>

definition parse_qsl :: "pylib \<Rightarrow> string \<Rightarrow> (string \<times> string) list" where
  "parse_qsl lib qs =
     (if qs = [] then []
      else concat (map (\<lambda>name_value.
             if name_value \<noteq> [] then
               (case str_partition CHR ''='' name_value of
                  (name, has_eq, val) \<Rightarrow>
                    if val \<noteq> [] then [(unquote_plus lib name, unquote_plus lib val)] else [])
             else [])
           (str_split CHR ''&'' qs)))"

text \<open>\<open>urllib.parse.parse_qs\<close>: the values of each name, in order of appearance.\<close>

definition parse_qs :: "pylib \<Rightarrow> string \<Rightarrow> (string \<Rightarrow> string list option)" where
  "parse_qs lib qs =
     foldl (\<lambda>parsed_result (name, val).
              (case parsed_result name of
                 Some vals \<Rightarrow> parsed_result(name \<mapsto> vals @ [val])
               | None \<Rightarrow> parsed_result(name \<mapsto> [val])))
           Map.empty (parse_qsl lib qs)"

text \<open>\<open>params[key][0]\<close>: \<open>KeyError\<close> for a missing key, \<open>IndexError\<close> for an empty list.\<close>

definition first_value :: "(string \<Rightarrow> string list option) \<Rightarrow> string \<Rightarrow> pyerror + string" where
  "first_value params key =
     (case params key of
        None \<Rightarrow> Inl KeyError
      | Some [] \<Rightarrow> Inl IndexError
      | Some (v # _) \<Rightarrow> Inr v)"

text \<open>\<open>html.escape(s)\<close> with \<open>quote=True\<close>.\<close>

definition html_escape :: "string \<Rightarrow> string" where
  "html_escape s =
     concat (map (\<lambda>c. if c = CHR ''&'' then ''&amp;''
                        else if c = CHR ''<'' then ''&lt;''
                        else if c = CHR ''>'' then ''&gt;''
                        else if c = CHR 0x22 then ''&quot;''
                        else if c = CHR 0x27 then ''&#x27;''
                        else [c]) s)"

text \<open>\<open>sep.join(xs)\<close>.\<close>

fun join :: "string \<Rightarrow> string list \<Rightarrow> string" where
  "join sep [] = []"
| "join sep [x] = x"
| "join sep (x # y # ys) = x @ sep @ join sep (y # ys)"

text \<open>
  \<open>rfile.read(n)\<close> on the buffered reader of the connection: \<open>n\<close> bytes, or all that the
  client sent when there are fewer; everything for \<open>-1\<close>; \<open>ValueError\<close> below \<open>-1\<close>.
\<close>

definition rfile_read :: "string \<Rightarrow> int \<Rightarrow> pyerror + string" where
  "rfile_read data n =
     (if n < - 1 then Inl ValueError
      else if n = - 1 then Inr data
      else Inr (take (nat n) data))"

subsection \<open>CheckURI\<close>

text \<open>
  \<^verbatim>\<open>
  def CheckURI(uri, timeout=5):
      try:
          response = requests.get(uri,timeout=timeout)
          if response.status_code == 200:
              return True
      except requests.RequestException:
          return False
  \<close>
  A status other than 200 leaves the \<open>try\<close> block without a \<open>return\<close>, so the function
  returns \<open>None\<close>. An exception that is not a \<open>RequestException\<close> is not caught.
\<close>

definition CheckURI :: "network \<Rightarrow> string \<Rightarrow> int \<Rightarrow> pyerror + pyval" where
  "CheckURI net uri timeout =
     (case net uri timeout of
        Inr status_code \<Rightarrow> if status_code = 200 then Inr PyTrue else Inr PyNone
      | Inl e \<Rightarrow> if e = RequestException then Inr PyFalse else Inl e)"

subsection \<open>The form page and the listing\<close>

text \<open>
  The template \<open>form\<close> holds one replacement field; \<open>form.format(x)\<close> is the text
  before the field, then \<open>x\<close>, then the text after it.
\<close>

definition form_head :: string where
  \<open>form_head =
     ''<!DOCTYPE html>\<newline>'' @
     ''<title>Bookmark Server</title>\<newline>'' @
     ''<form method="POST">\<newline>'' @
     ''    <p>\<newline>'' @
     ''        <label>What's your name again?\<newline>'' @
     ''            <input type="text" name="yourname">\<newline>'' @
     ''        </label>\<newline>'' @
     ''    </p>\<newline>'' @
     ''    <p>    \<newline>'' @
     ''        <label>Long URI:\<newline>'' @
     ''            <input name="longuri">\<newline>'' @
     ''        </label>\<newline>'' @
     ''        <br>\<newline>'' @
     ''        <label>Short name:\<newline>'' @
     ''            <input name="shortname">\<newline>'' @
     ''        </label>\<newline>'' @
     ''        <br>\<newline>'' @
     ''        <button type="submit">Save it!</button>\<newline>'' @
     ''    </p>\<newline>'' @
     ''</form>\<newline>'' @
     ''<p>URIs I know about:\<newline>'' @
     ''<pre>\<newline>''\<close>

definition form_tail :: string where
  \<open>form_tail = ''\<newline></pre>\<newline>''\<close>

definition form_format :: "string \<Rightarrow> string" where
  "form_format x = form_head @ x @ form_tail"

text \<open>
  \<^verbatim>\<open>
  known = "\n".join("{} : {}".format(key, memory[key])
                    for key in sorted(memory.keys()))
  \<close>
  The keys come from \<open>memory\<close> itself, so \<open>memory[key]\<close> finds each of them.
\<close>

definition known :: "registry \<Rightarrow> string" where
  "known memory =
     join ''\<newline>'' (map (\<lambda>key. key @ '' : '' @ the (map_of memory key))
                            (sort (map fst memory)))"

subsection \<open>do_GET\<close>

text \<open>
  Lines 84 to 99: the message, and the variable \<open>name\<close>, after the cookie block.
  The block stores the cookie's value in \<open>name\<close>, the variable that line 81 set to the
  decoded path; \<open>KeyError\<close> and \<open>CookieError\<close> are caught, and leave \<open>name\<close> as it was.
\<close>

definition read_cookie :: "pylib \<Rightarrow> request \<Rightarrow> string \<Rightarrow> pyerror + (string \<times> string)" where
  "read_cookie lib req name =
     (case cookie req of
        None \<Rightarrow> Inr (name, ''I don't know you yet!'')
      | Some h \<Rightarrow>
          (case SimpleCookie lib h of
             Inl e \<Rightarrow>
               if e = KeyError \<or> e = CookieError then Inr (name, ''I'm not sure who you are!'')
               else Inl e
           | Inr c \<Rightarrow>
               (case c ''yourname'' of
                  None \<Rightarrow> Inr (name, ''I'm not sure who you are!'')
                | Some v \<Rightarrow> Inr (v, ''Hey there, '' @ html_escape v))))"

definition do_GET :: "pylib \<Rightarrow> request \<Rightarrow> registry \<Rightarrow> outcome" where
  "do_GET lib req memory =
     (case read_cookie lib req (unquote lib (drop 1 (path req))) of
        Inl e \<Rightarrow> (Inl e, memory)
      | Inr (name, message) \<Rightarrow>
          if name \<noteq> [] then
            (case map_of memory name of
               Some uri \<Rightarrow>
                 (Inr \<lparr>status = 303, headers = [(''Location'', uri)], wfile = []\<rparr>, memory)
             | None \<Rightarrow>
                 (Inr \<lparr>status = 404,
                       headers = [(''Content-type'', ''text/plain; charset=utf-8'')],
                       wfile = ''I don't know '' @ [CHR 0x27] @ name @ [CHR 0x27] @ ''.''\<rparr>,
                  memory))
          else
            (Inr \<lparr>status = 200,
                  headers = [(''Content-type'', ''text/html'')],
                  wfile = form_format (known memory @ ''\<newline>'' @ message)\<rparr>,
             memory))"

subsection \<open>do_POST\<close>

text \<open>
  Lines 126 and 127: \<open>int(self.headers.get('Content-length', 0))\<close>, then
  \<open>self.rfile.read(length).decode()\<close>.
\<close>

definition read_body :: "pylib \<Rightarrow> request \<Rightarrow> pyerror + string" where
  "read_body lib req =
     (case (case content_length req of None \<Rightarrow> Inr 0 | Some s \<Rightarrow> py_int lib s) of
        Inl e \<Rightarrow> Inl e
      | Inr len \<Rightarrow>
          (case rfile_read (rfile req) len of
             Inl e \<Rightarrow> Inl e
           | Inr bytes \<Rightarrow> decode lib bytes))"

text \<open>
  Lines 132 to 135 and 155: the cookie \<open>yourname\<close> with \<open>max-age\<close> 600 and domain
  \<open>localhost\<close>; \<open>OutputString\<close> writes the attributes sorted by key.
\<close>

definition OutputString :: "pylib \<Rightarrow> string \<Rightarrow> string" where
  "OutputString lib yourname =
     ''yourname='' @ cookie_quote lib yourname @ ''; Domain=localhost; Max-Age=600''"

text \<open>
  Line 129 reads \<open>parse_qs(body)["yourname"][0]\<close> before the test for the missing
  fields at line 138, so a body without \<open>yourname\<close> raises \<open>KeyError\<close> there.
\<close>

definition do_POST :: "pylib \<Rightarrow> network \<Rightarrow> request \<Rightarrow> registry \<Rightarrow> outcome" where
  "do_POST lib net req memory =
     (case read_body lib req of
        Inl e \<Rightarrow> (Inl e, memory)
      | Inr body \<Rightarrow>
          (let params = parse_qs lib body in
           case first_value (parse_qs lib body) ''yourname'' of
             Inl e \<Rightarrow> (Inl e, memory)
           | Inr yourname \<Rightarrow>
               if params ''longuri'' = None \<or> params ''shortname'' = None then
                 (Inr \<lparr>status = 400,
                       headers = [(''Content-type'', ''text/html charset=utf-8'')],
                       wfile = ''Missing form fields!''\<rparr>,
                  memory)
               else
                 (case first_value params ''longuri'' of
                    Inl e \<Rightarrow> (Inl e, memory)
                  | Inr longuri \<Rightarrow>
                      (case first_value params ''shortname'' of
                         Inl e \<Rightarrow> (Inl e, memory)
                       | Inr shortname \<Rightarrow>
                           (case CheckURI net longuri 5 of
                              Inl e \<Rightarrow> (Inl e, memory)
                            | Inr reachable \<Rightarrow>
                                if truthy reachable then
                                  (Inr \<lparr>status = 303,
                                        headers = [(''Location'', ''/''),
                                                   (''Set-Cookie'', OutputString lib yourname)],
                                        wfile = []\<rparr>,
                                   AList.update shortname longuri memory)
                                else
                                  (Inr \<lparr>status = 404,
                                        headers = [(''Content-type'', ''text/html charset=utf-8'')],
                                        wfile = ''This is unfair!''\<rparr>,
                                   memory))))))"

subsection \<open>The server: one request after another\<close>

text \<open>
  An event is a request with its method and the network as it answers while the request
  is handled. An exception that escapes a handler is logged by the server, which goes on
  serving; the dictionary stays as the handler left it.
\<close>

datatype http_method = GET | POST

type_synonym event = "http_method \<times> request \<times> network"

fun serve :: "pylib \<Rightarrow> event \<Rightarrow> registry \<Rightarrow> outcome" where
  "serve lib (GET, req, net) memory = do_GET lib req memory"
| "serve lib (POST, req, net) memory = do_POST lib net req memory"

definition run :: "pylib \<Rightarrow> event list \<Rightarrow> registry \<Rightarrow> registry" where
  "run lib events memory = foldl (\<lambda>m ev. snd (serve lib ev m)) memory events"

text \<open>
  The name and URI a POST event submits with a reachable URI: the only events that
  write to the dictionary.
\<close>

definition admits :: "pylib \<Rightarrow> event \<Rightarrow> string \<Rightarrow> string \<Rightarrow> bool" where
  "admits lib ev name uri =
     (case ev of
        (GET, req, net) \<Rightarrow> False
      | (POST, req, net) \<Rightarrow>
          (case read_body lib req of
             Inl e \<Rightarrow> False
           | Inr body \<Rightarrow>
               first_value (parse_qs lib body) ''shortname'' = Inr name \<and>
               first_value (parse_qs lib body) ''longuri'' = Inr uri \<and>
               CheckURI net uri 5 = Inr PyTrue))"

subsection \<open>A reference library for the examples\<close>

text \<open>
  The theorems below hold for every library and every network. Their examples are
  evaluated with the instance \<open>ascii_lib\<close>, which agrees with CPython on the inputs the
  examples use: ASCII text, percent escapes that decode to ASCII, \<open>Cookie\<close> headers of
  the form \<open>name=value; name=value\<close>, \<open>Content-length\<close> headers of decimal digits, and
  cookie values made of letters and digits (which \<open>SimpleCookie\<close> stores unquoted).
\<close>

fun hexval :: "char \<Rightarrow> nat option" where
  "hexval c =
     (let n = (of_char c :: nat) in
      if 48 \<le> n \<and> n \<le> 57 then Some (n - 48)
      else if 65 \<le> n \<and> n \<le> 70 then Some (n - 55)
      else if 97 \<le> n \<and> n \<le> 102 then Some (n - 87)
      else None)"

fun percent_bytes :: "string \<Rightarrow> string" where
  "percent_bytes (c # h1 # h2 # cs) =
     (if c = CHR ''%'' then
        (case (hexval h1, hexval h2) of
           (Some a, Some b) \<Rightarrow> char_of (16 * a + b) # percent_bytes cs
         | _ \<Rightarrow> c # percent_bytes (h1 # h2 # cs))
      else c # percent_bytes (h1 # h2 # cs))"
| "percent_bytes cs = cs"

definition cookie_pairs :: "string \<Rightarrow> (string \<Rightarrow> string option)" where
  "cookie_pairs h =
     map_of (map (\<lambda>item. case str_partition CHR ''='' (dropWhile (\<lambda>c. c = CHR '' '') item) of
                             (name, has_eq, val) \<Rightarrow> (name, val))
                 (filter (\<lambda>item. CHR ''='' \<in> set item) (str_split CHR '';'' h)))"

definition decimal :: "string \<Rightarrow> pyerror + int" where
  "decimal s =
     (if s \<noteq> [] \<and> list_all (\<lambda>c. 48 \<le> (of_char c :: nat) \<and> (of_char c :: nat) \<le> 57) s
      then Inr (foldl (\<lambda>n c. 10 * n + (int (of_char c) - 48)) 0 s)
      else Inl ValueError)"

definition ascii_lib :: pylib where
  "ascii_lib =
     \<lparr>percent_decode = percent_bytes,
      SimpleCookie = (\<lambda>h. Inr (cookie_pairs h)),
      py_int = decimal,
      decode = (\<lambda>b. if list_all (\<lambda>c. (of_char c :: nat) < 128) b then Inr b
                      else Inl UnicodeDecodeError),
      cookie_quote = (\<lambda>s. s)\<rparr>"

text \<open>
  A network in which \<open>https://example.com\<close> answers 200, \<open>https://example.com/missing\<close>
  answers 404 and nothing else can be reached.
\<close>

definition example_net :: network where
  "example_net uri timeout =
     (if uri = ''https://example.com'' then Inr 200
      else if uri = ''https://example.com/missing'' then Inr 404
      else Inl RequestException)"

text \<open>
  A GET request for a path with a \<open>Cookie\<close> header or none, and a POST request that sends
  a body with its length, in decimal, as the \<open>Content-length\<close> header.
\<close>

definition get_request :: "string \<Rightarrow> string option \<Rightarrow> request" where
  "get_request p c = \<lparr>path = p, cookie = c, content_length = None, rfile = []\<rparr>"

fun show_nat :: "nat \<Rightarrow> string" where
  "show_nat n =
     (if n < 10 then [''0123456789'' ! n]
      else show_nat (n div 10) @ [''0123456789'' ! (n mod 10)])"

declare show_nat.simps [simp del]

definition post_request :: "string \<Rightarrow> request" where
  "post_request b =
     \<lparr>path = ''/'', cookie = None, content_length = Some (show_nat (length b)), rfile = b\<rparr>"

text \<open>
  A session on \<open>example_net\<close>: a registration of \<open>ex\<close>, a submission whose URI answers
  404, a lookup of \<open>ex\<close>, and a registration of \<open>a\<close>.
\<close>

definition example_events :: "event list" where
  "example_events =
     [(POST, post_request ''yourname=Ann&longuri=https://example.com&shortname=ex'', example_net),
      (POST, post_request ''yourname=Ann&longuri=https://example.com/missing&shortname=bad'',
        example_net),
      (GET, get_request ''/ex'' None, example_net),
      (POST, post_request ''yourname=Bob&longuri=https://example.com&shortname=a'', example_net)]"

section \<open>Properties\<close>

text \<open>The definitions that an evaluation of an example unfolds.\<close>

lemmas lib_eval =
  ascii_lib_def decimal_def cookie_pairs_def rfile_read_def read_body_def
  get_request_def post_request_def show_nat.simps example_net_def

lemmas form_eval =
  parse_qs_def parse_qsl_def unquote_plus_def unquote_def first_value_def

subsection \<open>The form parser\<close>

lemma parse_fold:
  "foldl (\<lambda>parsed_result (name, val).
            (case parsed_result name of
               Some vals \<Rightarrow> parsed_result(name \<mapsto> vals @ [val])
             | None \<Rightarrow> parsed_result(name \<mapsto> [val]))) m ps key =
   (let vs = map snd (filter (\<lambda>p. fst p = key) ps) in
    case m key of
      None \<Rightarrow> if vs = [] then None else Some vs
    | Some ws \<Rightarrow> Some (ws @ vs))"
proof (induction ps arbitrary: m)
  case Nil
  then show ?case by (simp split: option.splits)
next
  case (Cons p ps)
  obtain n v where p: "p = (n, v)" by (cases p)
  show ?case
    by (simp add: Cons.IH p Let_def split: option.splits)
qed

lemma parse_qs_values:
  "parse_qs lib qs key =
     (let vs = map snd (filter (\<lambda>p. fst p = key) (parse_qsl lib qs)) in
      if vs = [] then None else Some vs)"
  by (simp add: parse_qs_def parse_fold Let_def)

lemma parse_qs_nonempty: "parse_qs lib qs key \<noteq> Some []"
  by (simp add: parse_qs_values Let_def)

lemma first_value_parse_qs:
  "first_value (parse_qs lib qs) key = Inl KeyError \<or>
   (\<exists>v vs. parse_qs lib qs key = Some (v # vs) \<and> first_value (parse_qs lib qs) key = Inr v)"
  using parse_qs_nonempty [of lib qs key]
  by (cases "parse_qs lib qs key") (auto simp: first_value_def split: list.splits)

lemma str_split_single: "sep \<notin> set s \<Longrightarrow> str_split sep s = [s]"
  by (induction s) auto

lemma str_partition_blank:
  "sep \<notin> set s \<Longrightarrow> str_partition sep (s @ [sep]) = (s, True, [])"
  by (induction s) auto

lemma parse_qsl_blank_field:
  "CHR ''&'' \<notin> set field \<Longrightarrow> CHR ''='' \<notin> set field \<Longrightarrow> parse_qsl lib (field @ ''='') = []"
  by (simp add: parse_qsl_def str_split_single str_partition_blank)

subsection \<open>The handlers\<close>

lemma snd_do_GET: "snd (do_GET lib req memory) = memory"
  by (simp add: do_GET_def split: sum.splits option.splits prod.splits)

lemma do_POST_no_yourname:
  "read_body lib req = Inr body \<Longrightarrow> parse_qs lib body ''yourname'' = None \<Longrightarrow>
   do_POST lib net req memory = (Inl KeyError, memory)"
  by (simp add: do_POST_def first_value_def)

lemma truthy_iff: "truthy r \<longleftrightarrow> r = PyTrue"
  by (cases r) simp_all

lemma do_POST_registry:
  "snd (do_POST lib net req memory) = memory \<or>
   (\<exists>name uri. admits lib (POST, req, net) name uri \<and>
      snd (do_POST lib net req memory) = AList.update name uri memory)"
  unfolding do_POST_def admits_def Let_def
  by (auto simp: truthy_iff split: sum.splits)

lemma serve_registry:
  "snd (serve lib ev memory) = memory \<or>
   (\<exists>name uri. admits lib ev name uri \<and> snd (serve lib ev memory) = AList.update name uri memory)"
proof -
  obtain m req net where ev: "ev = (m, req, net)" by (cases ev)
  show ?thesis
  proof (cases m)
    case GET
    with ev show ?thesis by (simp add: snd_do_GET)
  next
    case POST
    with ev show ?thesis using do_POST_registry [of lib net req memory] by simp
  qed
qed

lemma run_Cons: "run lib (ev # events) memory = run lib events (snd (serve lib ev memory))"
  by (simp add: run_def)

lemma run_entries:
  "map_of (run lib events memory) name = Some uri \<Longrightarrow>
   map_of memory name = Some uri \<or> (\<exists>ev \<in> set events. admits lib ev name uri)"
proof (induction events arbitrary: memory)
  case Nil
  then show ?case by (simp add: run_def)
next
  case (Cons ev events)
  from Cons.prems have "map_of (run lib events (snd (serve lib ev memory))) name = Some uri"
    by (simp add: run_Cons)
  from Cons.IH [OF this]
  consider "map_of (snd (serve lib ev memory)) name = Some uri"
    | "\<exists>e \<in> set events. admits lib e name uri" by blast
  then show ?case
  proof cases
    case 1
    from serve_registry [of lib ev memory] show ?thesis
    proof
      assume "snd (serve lib ev memory) = memory"
      with 1 show ?thesis by simp
    next
      assume "\<exists>n u. admits lib ev n u \<and> snd (serve lib ev memory) = AList.update n u memory"
      then obtain n u where a: "admits lib ev n u"
        and s: "snd (serve lib ev memory) = AList.update n u memory" by blast
      from 1 s have "((map_of memory)(n \<mapsto> u)) name = Some uri"
        by (simp add: update_conv')
      then show ?thesis using a by (cases "name = n") auto
    qed
  next
    case 2
    then show ?thesis by auto
  qed
qed

lemma run_distinct: "distinct (map fst memory) \<Longrightarrow> distinct (map fst (run lib events memory))"
proof (induction events arbitrary: memory)
  case Nil
  then show ?case by (simp add: run_def)
next
  case (Cons ev events)
  from serve_registry [of lib ev memory] Cons.prems
  have "distinct (map fst (snd (serve lib ev memory)))"
    by (auto simp: distinct_update)
  then show ?case by (simp add: run_Cons Cons.IH)
qed

subsection \<open>The listing\<close>

lemma entries_of_distinct:
  assumes "distinct (map fst memory)"
  shows "(\<lambda>key. (key, the (map_of memory key))) ` fst ` set memory = set memory"
proof -
  have "(fst p, the (map_of memory (fst p))) = p" if "p \<in> set memory" for p
  proof -
    obtain k v where p: "p = (k, v)" by (cases p)
    with that assms have "map_of memory k = Some v" by simp
    with p show ?thesis by simp
  qed
  then show ?thesis by (force simp: image_iff)
qed

lemma known_entries:
  assumes "distinct (map fst memory)"
  shows "\<exists>entries. set entries = set memory \<and> sorted_wrt (<) (map fst entries) \<and>
           known memory = join ''\<newline>'' (map (\<lambda>(key, uri). key @ '' : '' @ uri) entries)"
proof -
  let ?es = "map (\<lambda>key. (key, the (map_of memory key))) (sort (map fst memory))"
  have 1: "set ?es = set memory"
    using entries_of_distinct [OF assms] by simp
  have k: "map fst ?es = sort (map fst memory)"
    by (simp add: comp_def)
  have 2: "sorted_wrt (<) (map fst ?es)"
    unfolding k using assms by (simp add: strict_sorted_iff)
  have 3: "known memory = join ''\<newline>'' (map (\<lambda>(key, uri). key @ '' : '' @ uri) ?es)"
    by (simp add: known_def comp_def)
  from 1 2 3 show ?thesis by blast
qed

subsection \<open>CheckURI: when it returns True, when False\<close>

lemma CheckURI_True: "CheckURI net uri timeout = Inr PyTrue \<longleftrightarrow> net uri timeout = Inr 200"
  by (auto simp: CheckURI_def split: sum.splits if_splits)

lemma CheckURI_False:
  "CheckURI net uri timeout = Inr PyFalse \<longleftrightarrow> net uri timeout = Inl RequestException"
  by (auto simp: CheckURI_def split: sum.splits if_splits)

subsection \<open>do_GET on a request whose cookie gives no name\<close>

text \<open>
  Without a \<open>Cookie\<close> header the handler looks up the decoded path and sends the form
  for the root path. A cookie header without a usable \<open>yourname\<close>, or with a blank one,
  changes only the greeting.
\<close>

lemma read_cookie_value:
  "cookie req = Some h \<Longrightarrow> SimpleCookie lib h = Inr c \<Longrightarrow> c ''yourname'' = Some v \<Longrightarrow>
   read_cookie lib req name = Inr (v, ''Hey there, '' @ html_escape v)"
  by (simp add: read_cookie_def)

lemma do_GET_redirect:
  "cookie req = None \<Longrightarrow> unquote lib (drop 1 (path req)) = name \<Longrightarrow> name \<noteq> [] \<Longrightarrow>
   map_of memory name = Some uri \<Longrightarrow>
   do_GET lib req memory =
     (Inr \<lparr>status = 303, headers = [(''Location'', uri)], wfile = []\<rparr>, memory)"
  by (simp add: do_GET_def read_cookie_def)

lemma do_GET_unknown:
  "cookie req = None \<Longrightarrow> unquote lib (drop 1 (path req)) = name \<Longrightarrow> name \<noteq> [] \<Longrightarrow>
   map_of memory name = None \<Longrightarrow>
   do_GET lib req memory =
     (Inr \<lparr>status = 404,
           headers = [(''Content-type'', ''text/plain; charset=utf-8'')],
           wfile = ''I don't know '' @ [CHR 0x27] @ name @ [CHR 0x27] @ ''.''\<rparr>,
      memory)"
  by (simp add: do_GET_def read_cookie_def)

lemma do_GET_root:
  "path req = ''/'' \<Longrightarrow> cookie req = None \<Longrightarrow>
   do_GET lib req memory =
     (Inr \<lparr>status = 200,
           headers = [(''Content-type'', ''text/html'')],
           wfile = form_format (known memory @ ''\<newline>'' @ ''I don't know you yet!'')\<rparr>,
      memory)"
  by (simp add: do_GET_def read_cookie_def unquote_def)

lemma do_GET_root_unusable_cookie:
  "path req = ''/'' \<Longrightarrow> cookie req = Some h \<Longrightarrow>
   SimpleCookie lib h = Inl CookieError \<or> (\<exists>c. SimpleCookie lib h = Inr c \<and> c ''yourname'' = None) \<Longrightarrow>
   do_GET lib req memory =
     (Inr \<lparr>status = 200,
           headers = [(''Content-type'', ''text/html'')],
           wfile = form_format (known memory @ ''\<newline>'' @ ''I'm not sure who you are!'')\<rparr>,
      memory)"
  by (auto simp: do_GET_def read_cookie_def unquote_def)

lemma do_GET_root_blank_cookie:
  "path req = ''/'' \<Longrightarrow> cookie req = Some h \<Longrightarrow> SimpleCookie lib h = Inr c \<Longrightarrow>
   c ''yourname'' = Some [] \<Longrightarrow>
   do_GET lib req memory =
     (Inr \<lparr>status = 200,
           headers = [(''Content-type'', ''text/html'')],
           wfile = form_format (known memory @ ''\<newline>'' @ ''Hey there, '')\<rparr>,
      memory)"
  by (simp add: do_GET_def read_cookie_def html_escape_def)

subsection \<open>do_POST on a body that carries yourname\<close>

text \<open>
  When the parsed body holds a value for \<open>yourname\<close>, line 129 succeeds and the handler
  answers 400, 404 or 303 as lines 138 to 162 say.
\<close>

lemma first_value_Some: "params key = Some (v # vs) \<Longrightarrow> first_value params key = Inr v"
  by (simp add: first_value_def)

lemma do_POST_missing_fields:
  "read_body lib req = Inr body \<Longrightarrow> parse_qs lib body ''yourname'' = Some (y # ys) \<Longrightarrow>
   parse_qs lib body ''longuri'' = None \<or> parse_qs lib body ''shortname'' = None \<Longrightarrow>
   do_POST lib net req memory =
     (Inr \<lparr>status = 400,
           headers = [(''Content-type'', ''text/html charset=utf-8'')],
           wfile = ''Missing form fields!''\<rparr>,
      memory)"
  by (auto simp: do_POST_def first_value_def)

lemma do_POST_unreachable:
  "read_body lib req = Inr body \<Longrightarrow> parse_qs lib body ''yourname'' = Some (y # ys) \<Longrightarrow>
   parse_qs lib body ''longuri'' = Some (longuri # us) \<Longrightarrow>
   parse_qs lib body ''shortname'' = Some (shortname # ss) \<Longrightarrow>
   CheckURI net longuri 5 = Inr reachable \<Longrightarrow> \<not> truthy reachable \<Longrightarrow>
   do_POST lib net req memory =
     (Inr \<lparr>status = 404,
           headers = [(''Content-type'', ''text/html charset=utf-8'')],
           wfile = ''This is unfair!''\<rparr>,
      memory)"
  by (simp add: do_POST_def first_value_def)

lemma do_POST_registered:
  "read_body lib req = Inr body \<Longrightarrow> parse_qs lib body ''yourname'' = Some (y # ys) \<Longrightarrow>
   parse_qs lib body ''longuri'' = Some (longuri # us) \<Longrightarrow>
   parse_qs lib body ''shortname'' = Some (shortname # ss) \<Longrightarrow>
   CheckURI net longuri 5 = Inr PyTrue \<Longrightarrow>
   do_POST lib net req memory =
     (Inr \<lparr>status = 303,
           headers = [(''Location'', ''/''),
                      (''Set-Cookie'',
                       ''yourname='' @ cookie_quote lib y @ ''; Domain=localhost; Max-Age=600'')],
           wfile = []\<rparr>,
      AList.update shortname longuri memory)"
  by (simp add: do_POST_def first_value_def OutputString_def)

lemma registered_lookup:
  "map_of (AList.update shortname longuri memory) shortname = Some longuri"
  by (simp add: update_conv')

subsection \<open>When the handlers answer\<close>

text \<open>
  \<open>do_GET\<close> sends a response whenever the cookie parser raises nothing but the two
  exceptions line 97 catches. \<open>do_POST\<close> sends one when the body can be read, holds a
  value for \<open>yourname\<close>, and \<open>requests.get\<close> raises nothing but \<open>RequestException\<close>.
\<close>

lemma read_cookie_returns:
  assumes "\<forall>h e. cookie req = Some h \<longrightarrow> SimpleCookie lib h = Inl e \<longrightarrow>
             e = KeyError \<or> e = CookieError"
  shows "\<exists>name message. read_cookie lib req path_name = Inr (name, message)"
proof (cases "cookie req")
  case None
  then show ?thesis by (simp add: read_cookie_def)
next
  case (Some h)
  show ?thesis
  proof (cases "SimpleCookie lib h")
    case (Inl e)
    with Some assms show ?thesis by (auto simp: read_cookie_def)
  next
    case (Inr c)
    with Some show ?thesis by (cases "c ''yourname''") (simp_all add: read_cookie_def)
  qed
qed

lemma do_GET_answers:
  assumes "\<forall>h e. cookie req = Some h \<longrightarrow> SimpleCookie lib h = Inl e \<longrightarrow>
             e = KeyError \<or> e = CookieError"
  shows "\<exists>r. do_GET lib req memory = (Inr r, memory)"
proof -
  obtain name message
    where "read_cookie lib req (unquote lib (drop 1 (path req))) = Inr (name, message)"
    using read_cookie_returns [OF assms] by blast
  then show ?thesis
    by (simp add: do_GET_def split: option.splits)
qed

lemma first_value_present:
  assumes "parse_qs lib qs key \<noteq> None"
  shows "\<exists>v. first_value (parse_qs lib qs) key = Inr v"
proof -
  from assms obtain vs where vs: "parse_qs lib qs key = Some vs" by blast
  with parse_qs_nonempty [of lib qs key] obtain v ws where "vs = v # ws"
    by (cases vs) auto
  with vs show ?thesis by (simp add: first_value_def)
qed

lemma do_POST_answers:
  assumes "read_body lib req = Inr body"
    and "parse_qs lib body ''yourname'' \<noteq> None"
    and "\<forall>uri. \<exists>reachable. CheckURI net uri 5 = Inr reachable"
  shows "\<exists>r m. do_POST lib net req memory = (Inr r, m)"
proof -
  obtain y where y: "first_value (parse_qs lib body) ''yourname'' = Inr y"
    using first_value_present [OF assms(2)] by blast
  show ?thesis
  proof (cases "parse_qs lib body ''longuri'' = None \<or> parse_qs lib body ''shortname'' = None")
    case True
    with assms(1) y show ?thesis
      by (auto simp: do_POST_def Let_def)
  next
    case False
    then obtain u s where u: "first_value (parse_qs lib body) ''longuri'' = Inr u"
      and s: "first_value (parse_qs lib body) ''shortname'' = Inr s"
      using first_value_present [of lib body] by blast
    obtain k where k: "CheckURI net u 5 = Inr k"
      using assms(3) by blast
    from False assms(1) u s y k show ?thesis
      by (simp add: do_POST_def Let_def)
  qed
qed

subsection \<open>Blank values never reach the dictionary\<close>

text \<open>
  \<open>parse_qsl\<close> skips a pair whose value is blank, and decoding keeps a value that is not
  blank from becoming blank (each escape decodes to a character), so no name and no URI
  in the dictionary is empty.
\<close>

lemma unquote_plus_nonblank:
  "\<forall>s. CHR ''%'' \<in> set s \<longrightarrow> percent_decode lib s \<noteq> [] \<Longrightarrow> s \<noteq> [] \<Longrightarrow>
   unquote_plus lib s \<noteq> []"
  by (simp add: unquote_plus_def unquote_def)

lemma parse_qsl_nonblank:
  assumes "\<forall>s. CHR ''%'' \<in> set s \<longrightarrow> percent_decode lib s \<noteq> []"
    and "(name, val) \<in> set (parse_qsl lib qs)"
  shows "val \<noteq> []"
  using assms(2) unquote_plus_nonblank [OF assms(1)]
  by (auto simp: parse_qsl_def split: if_splits prod.splits)

lemma first_value_nonblank:
  assumes "\<forall>s. CHR ''%'' \<in> set s \<longrightarrow> percent_decode lib s \<noteq> []"
    and "first_value (parse_qs lib qs) key = Inr v"
  shows "v \<noteq> []"
proof -
  from assms(2) obtain vs where "parse_qs lib qs key = Some (v # vs)"
    by (auto simp: first_value_def split: option.splits list.splits)
  then have "map snd (filter (\<lambda>p. fst p = key) (parse_qsl lib qs)) = v # vs"
    by (simp add: parse_qs_values Let_def split: if_splits)
  then have "v \<in> set (map snd (filter (\<lambda>p. fst p = key) (parse_qsl lib qs)))"
    by simp
  then have "v \<in> snd ` set (parse_qsl lib qs)"
    by auto
  then show ?thesis using parse_qsl_nonblank [OF assms(1)] by auto
qed

lemma run_nonblank:
  assumes "\<forall>s. CHR ''%'' \<in> set s \<longrightarrow> percent_decode lib s \<noteq> []"
    and "map_of (run lib events []) name = Some uri"
  shows "name \<noteq> [] \<and> uri \<noteq> []"
proof -
  from run_entries [OF assms(2)] obtain ev where "admits lib ev name uri" by auto
  then show ?thesis
    using first_value_nonblank [OF assms(1)]
    by (auto simp: admits_def split: prod.splits http_method.splits sum.splits)
qed

subsection \<open>The example session\<close>

lemma example_post:
  "do_POST ascii_lib example_net
     (post_request ''yourname=Ann&longuri=https://example.com&shortname=ex'') [] =
     (Inr \<lparr>status = 303,
           headers = [(''Location'', ''/''),
                      (''Set-Cookie'', ''yourname=Ann; Domain=localhost; Max-Age=600'')],
           wfile = []\<rparr>,
      [(''ex'', ''https://example.com'')])"
  by (simp add: do_POST_def lib_eval form_eval CheckURI_def OutputString_def)

lemma example_get:
  "do_GET ascii_lib (get_request ''/ex'' None) [(''ex'', ''https://example.com'')] =
     (Inr \<lparr>status = 303, headers = [(''Location'', ''https://example.com'')], wfile = []\<rparr>,
      [(''ex'', ''https://example.com'')])"
  by (simp add: do_GET_def read_cookie_def lib_eval unquote_def)

lemma example_run:
  "run ascii_lib example_events [] =
     [(''ex'', ''https://example.com''), (''a'', ''https://example.com'')]"
  by (simp add: run_def example_events_def do_POST_def do_GET_def read_cookie_def lib_eval form_eval
      CheckURI_def OutputString_def)

section \<open>The claims\<close>

subsection \<open>C1: a lookup redirects to the stored URI\<close>

text \<open>
  Claim C1: for every pair \<open>(name, uri)\<close> in the registry, a GET of \<open>/name\<close>, whatever
  \<open>Cookie\<close> header it carries, is answered 303 with \<open>Location: uri\<close>, and a GET whose
  decoded path names no entry is answered 404 with a body naming it.

  The code does this only when the cookie gives no name (\<open>do_GET_redirect\<close>,
  \<open>do_GET_unknown\<close>). Line 93 stores the value of the cookie \<open>yourname\<close> in the variable
  that holds the decoded path, so with a cookie \<open>yourname=v\<close> the handler looks up \<open>v\<close>:
  when \<open>v\<close> is not a stored name, a request for a stored name is answered 404, with a
  body naming \<open>v\<close>.
\<close>

theorem do_GET_cookie_replaces_name:
  assumes "map_of memory name = Some uri"
    and "unquote lib (drop 1 (path req)) = name"
    and "cookie req = Some h"
    and "SimpleCookie lib h = Inr c"
    and "c ''yourname'' = Some v"
    and "v \<noteq> []"
    and "map_of memory v = None"
  shows "do_GET lib req memory =
           (Inr \<lparr>status = 404,
                 headers = [(''Content-type'', ''text/plain; charset=utf-8'')],
                 wfile = ''I don't know '' @ [CHR 0x27] @ v @ [CHR 0x27] @ ''.''\<rparr>,
            memory)"
  using assms by (simp add: do_GET_def read_cookie_value)

text \<open>\<open>GET /ex\<close> with \<open>Cookie: yourname=Ann\<close>, when \<open>ex\<close> is stored and \<open>Ann\<close> is not.\<close>

theorem do_GET_cookie_replaces_name_witness:
  "do_GET ascii_lib (get_request ''/ex'' (Some ''yourname=Ann''))
     [(''ex'', ''https://example.com'')] =
     (Inr \<lparr>status = 404,
           headers = [(''Content-type'', ''text/plain; charset=utf-8'')],
           wfile = ''I don't know '' @ [CHR 0x27] @ ''Ann'' @ [CHR 0x27] @ ''.''\<rparr>,
      [(''ex'', ''https://example.com'')])"
  using do_GET_cookie_replaces_name
    [of "[(''ex'', ''https://example.com'')]" "''ex''" "''https://example.com''" ascii_lib
        "get_request ''/ex'' (Some ''yourname=Ann'')" "''yourname=Ann''"
        "cookie_pairs ''yourname=Ann''" "''Ann''"]
  by (simp add: lib_eval unquote_def)

subsection \<open>C2: the root path shows the form\<close>

text \<open>
  Claim C2: every GET of the root path, whatever \<open>Cookie\<close> header it carries, is answered
  200 with the form page; the cookie changes the greeting only, never the flow.

  The code does this without a cookie, with an unusable one and with a blank
  \<open>yourname\<close> (\<open>do_GET_root\<close>, \<open>do_GET_root_unusable_cookie\<close>, \<open>do_GET_root_blank_cookie\<close>).
  With a cookie \<open>yourname=v\<close>, \<open>v\<close> not blank, the variable tested at line 101 holds \<open>v\<close>,
  so the root path is answered as a lookup of \<open>v\<close>: 303 when \<open>v\<close> is a stored name, 404
  otherwise, and never the form.
\<close>

theorem do_GET_root_with_cookie:
  assumes "path req = ''/''"
    and "cookie req = Some h"
    and "SimpleCookie lib h = Inr c"
    and "c ''yourname'' = Some v"
    and "v \<noteq> []"
  shows "do_GET lib req memory =
           (case map_of memory v of
              Some uri \<Rightarrow>
                (Inr \<lparr>status = 303, headers = [(''Location'', uri)], wfile = []\<rparr>, memory)
            | None \<Rightarrow>
                (Inr \<lparr>status = 404,
                      headers = [(''Content-type'', ''text/plain; charset=utf-8'')],
                      wfile = ''I don't know '' @ [CHR 0x27] @ v @ [CHR 0x27] @ ''.''\<rparr>,
                 memory))"
  using assms by (simp add: do_GET_def read_cookie_value)

text \<open>\<open>GET /\<close> with \<open>Cookie: yourname=Ann\<close>, the cookie a registration by Ann sets.\<close>

theorem do_GET_root_with_cookie_witness:
  "do_GET ascii_lib (get_request ''/'' (Some ''yourname=Ann'')) [] =
     (Inr \<lparr>status = 404,
           headers = [(''Content-type'', ''text/plain; charset=utf-8'')],
           wfile = ''I don't know '' @ [CHR 0x27] @ ''Ann'' @ [CHR 0x27] @ ''.''\<rparr>,
      [])"
  using do_GET_root_with_cookie
    [of "get_request ''/'' (Some ''yourname=Ann'')" "''yourname=Ann''" ascii_lib
        "cookie_pairs ''yourname=Ann''" "''Ann''" "[]"]
  by (simp add: lib_eval)

subsection \<open>C3: a missing field is answered 400\<close>

text \<open>
  Claim C3: every POST whose parsed body lacks \<open>longuri\<close> or \<open>shortname\<close>, whether or not
  \<open>yourname\<close> is present, is answered 400 with a missing-fields message, sets no cookie
  and leaves the registry unchanged.

  The code does this when \<open>yourname\<close> is present (\<open>do_POST_missing_fields\<close>). When it is
  absent, line 129 raises \<open>KeyError\<close> before the test of line 138: no response is sent.
  The registry is unchanged and no cookie is set, as the claim says.
\<close>

theorem do_POST_missing_field_without_yourname:
  assumes "read_body lib req = Inr body"
    and "parse_qs lib body ''yourname'' = None"
    and "parse_qs lib body ''longuri'' = None \<or> parse_qs lib body ''shortname'' = None"
  shows "do_POST lib net req memory = (Inl KeyError, memory)"
  using assms by (simp add: do_POST_no_yourname)

text \<open>A body with \<open>longuri\<close> alone.\<close>

theorem do_POST_missing_field_without_yourname_witness:
  "parse_qs ascii_lib ''longuri=https://example.com'' ''shortname'' = None \<and>
   do_POST ascii_lib example_net (post_request ''longuri=https://example.com'') [] =
     (Inl KeyError, [])"
  using do_POST_missing_field_without_yourname
    [of ascii_lib "post_request ''longuri=https://example.com''" "''longuri=https://example.com''"
        example_net "[]"]
  by (simp add: lib_eval form_eval)

subsection \<open>C4: the handlers always answer\<close>

text \<open>
  Claim C4: handling any GET or POST request runs to completion with one response and no
  unhandled fault; in particular \<open>do_POST\<close> never raises on any form body.

  \<open>do_GET\<close> answers every request whose cookie the library can parse or rejects with
  \<open>CookieError\<close> (\<open>do_GET_answers\<close>), and \<open>do_POST\<close> answers when the body holds
  \<open>yourname\<close> (\<open>do_POST_answers\<close>). But \<open>do_POST\<close> raises \<open>KeyError\<close> on the empty
  body, as on every body without \<open>yourname\<close> (\<open>do_POST_no_yourname\<close>): line 129 indexes
  the parsed form before any check.
\<close>

theorem do_POST_empty_body:
  "read_body lib req = Inr [] \<Longrightarrow> do_POST lib net req memory = (Inl KeyError, memory)"
  by (simp add: do_POST_no_yourname parse_qs_def parse_qsl_def)

text \<open>A POST that sends no body.\<close>

theorem do_POST_empty_body_witness:
  "do_POST ascii_lib example_net (post_request []) [] = (Inl KeyError, [])"
  using do_POST_empty_body [of ascii_lib "post_request []" example_net "[]"]
  by (simp add: lib_eval)

subsection \<open>C5: CheckURI returns True or False\<close>

text \<open>
  Claim C5: \<open>CheckURI\<close> returns exactly true when the GET yields status 200 and exactly
  false in every other case, among them any other status code.

  For status 200 and for a \<open>RequestException\<close> the code does so (\<open>CheckURI_True\<close>,
  \<open>CheckURI_False\<close>). For any other status code no \<open>return\<close> is reached and the function
  returns \<open>None\<close>, which is not \<open>False\<close>, although \<open>do_POST\<close> treats both alike.
\<close>

theorem CheckURI_other_status:
  "net uri timeout = Inr status_code \<Longrightarrow> status_code \<noteq> 200 \<Longrightarrow>
   CheckURI net uri timeout = Inr PyNone \<and> CheckURI net uri timeout \<noteq> Inr PyFalse"
  by (simp add: CheckURI_def)

text \<open>A URI that answers 404.\<close>

theorem CheckURI_other_status_witness:
  "example_net ''https://example.com/missing'' 5 = Inr 404 \<and>
   CheckURI example_net ''https://example.com/missing'' 5 = Inr PyNone"
  using CheckURI_other_status [of example_net "''https://example.com/missing''" 5 404]
  by (simp add: example_net_def)

subsection \<open>C6: an unreachable URI is answered 404\<close>

text \<open>
  Claim C6: every POST that contains \<open>longuri\<close> and \<open>shortname\<close> and whose liveness check
  fails is answered 404 with an explanatory body, sets no cookie and leaves the registry
  unchanged.

  The code does this when the body also holds \<open>yourname\<close> (\<open>do_POST_unreachable\<close>). When
  it does not, line 129 raises \<open>KeyError\<close> before the check is made, and no response is
  sent; the registry is unchanged.
\<close>

theorem do_POST_unreachable_without_yourname:
  assumes "read_body lib req = Inr body"
    and "parse_qs lib body ''yourname'' = None"
    and "first_value (parse_qs lib body) ''longuri'' = Inr longuri"
    and "first_value (parse_qs lib body) ''shortname'' = Inr shortname"
    and "CheckURI net longuri 5 = Inr reachable"
    and "\<not> truthy reachable"
  shows "do_POST lib net req memory = (Inl KeyError, memory)"
  using assms by (simp add: do_POST_no_yourname)

text \<open>A submission of a URI that answers 404, without \<open>yourname\<close>.\<close>

theorem do_POST_unreachable_without_yourname_witness:
  "CheckURI example_net ''https://example.com/missing'' 5 = Inr PyNone \<and>
   do_POST ascii_lib example_net
     (post_request ''longuri=https://example.com/missing&shortname=ex'') [] = (Inl KeyError, [])"
  using do_POST_unreachable_without_yourname
    [of ascii_lib "post_request ''longuri=https://example.com/missing&shortname=ex''"
        "''longuri=https://example.com/missing&shortname=ex''"
        "''https://example.com/missing''" "''ex''" example_net PyNone "[]"]
  by (simp add: lib_eval form_eval CheckURI_def)

subsection \<open>C7: a reachable URI is registered\<close>

text \<open>
  Claim C7: every POST that contains \<open>longuri\<close> and \<open>shortname\<close> and whose liveness check
  succeeds leaves the registry mapping \<open>shortname\<close> to \<open>longuri\<close>, and is answered 303 with
  \<open>Location: /\<close> and a \<open>Set-Cookie\<close> header carrying \<open>yourname\<close> with max-age 600.

  The code does this when the parsed body holds a value for \<open>yourname\<close>
  (\<open>do_POST_registered\<close>, \<open>registered_lookup\<close>). When the name box is left blank, or the
  field is not sent, the parsed body has no \<open>yourname\<close>: line 129 raises \<open>KeyError\<close>,
  nothing is registered and no response is sent.
\<close>

theorem do_POST_reachable_without_yourname:
  assumes "read_body lib req = Inr body"
    and "parse_qs lib body ''yourname'' = None"
    and "first_value (parse_qs lib body) ''longuri'' = Inr longuri"
    and "first_value (parse_qs lib body) ''shortname'' = Inr shortname"
    and "CheckURI net longuri 5 = Inr PyTrue"
  shows "do_POST lib net req memory = (Inl KeyError, memory)"
  using assms by (simp add: do_POST_no_yourname)

text \<open>The form submitted with the name box blank and a URI that answers 200.\<close>

theorem do_POST_reachable_without_yourname_witness:
  "CheckURI example_net ''https://example.com'' 5 = Inr PyTrue \<and>
   do_POST ascii_lib example_net
     (post_request ''yourname=&longuri=https://example.com&shortname=ex'') [] = (Inl KeyError, [])"
  using do_POST_reachable_without_yourname
    [of ascii_lib "post_request ''yourname=&longuri=https://example.com&shortname=ex''"
        "''yourname=&longuri=https://example.com&shortname=ex''"
        "''https://example.com''" "''ex''" example_net "[]"]
  by (simp add: lib_eval form_eval CheckURI_def)

subsection \<open>C8: the registry holds admitted entries only, and the listing is sorted\<close>

text \<open>
  Claim C8: in every state the server reaches, each entry of the registry was admitted by
  a successful liveness check at the moment of its insertion, and the rendered listing
  enumerates the entries in ascending order of short name, one \<open>name : uri\<close> pair per line.

  The states the server reaches are those of \<open>run\<close> on any list of events from the empty
  dictionary of line 31. An entry \<open>(name, uri)\<close> of such a state was submitted by a POST
  event of the list for which \<open>CheckURI\<close> returned \<open>True\<close> on the network of that event.
  The listing is the lines \<open>key : uri\<close> of the entries of the state, each entry once, in
  strictly ascending order of key, joined by newlines.
\<close>

theorem registry_invariant:
  "(\<forall>name uri. map_of (run lib events []) name = Some uri \<longrightarrow>
       (\<exists>ev \<in> set events. admits lib ev name uri)) \<and>
   (\<exists>entries. set entries = set (run lib events []) \<and>
       sorted_wrt (<) (map fst entries) \<and>
       known (run lib events []) =
         join ''\<newline>'' (map (\<lambda>(key, uri). key @ '' : '' @ uri) entries))"
proof
  show "\<forall>name uri. map_of (run lib events []) name = Some uri \<longrightarrow>
          (\<exists>ev \<in> set events. admits lib ev name uri)"
    using run_entries [of lib events "[]"] by simp
  have "distinct (map fst (run lib events []))"
    by (rule run_distinct) simp
  then show "\<exists>entries. set entries = set (run lib events []) \<and>
       sorted_wrt (<) (map fst entries) \<and>
       known (run lib events []) =
         join ''\<newline>'' (map (\<lambda>(key, uri). key @ '' : '' @ uri) entries)"
    by (rule known_entries)
qed

text \<open>
  The example session: \<open>a\<close> is stored and a POST of the session admitted it, the
  submission that answered 404 is not stored, and the listing has \<open>a\<close> before \<open>ex\<close>.
\<close>

theorem registry_invariant_witness:
  "map_of (run ascii_lib example_events []) ''a'' = Some ''https://example.com'' \<and>
   (\<exists>ev \<in> set example_events. admits ascii_lib ev ''a'' ''https://example.com'') \<and>
   map_of (run ascii_lib example_events []) ''bad'' = None \<and>
   known (run ascii_lib example_events []) =
     ''a : https://example.com\<newline>ex : https://example.com''"
proof -
  have a: "map_of (run ascii_lib example_events []) ''a'' = Some ''https://example.com''"
    by (simp add: example_run)
  with registry_invariant [of ascii_lib example_events]
  have b: "\<exists>ev \<in> set example_events. admits ascii_lib ev ''a'' ''https://example.com''"
    by blast
  have c: "map_of (run ascii_lib example_events []) ''bad'' = None"
    by (simp add: example_run)
  have d: "known (run ascii_lib example_events []) =
             ''a : https://example.com\<newline>ex : https://example.com''"
    by (simp add: example_run known_def)
  from a b c d show ?thesis by blast
qed

subsection \<open>C9: concurrent requests\<close>

text \<open>
  Claim C9 is about requests served by several threads at once. The model serves one
  request after another and says nothing about interleavings; the source takes no lock
  around \<open>memory\<close>.
\<close>

subsection \<open>C10: a blank field is an absent field\<close>

text \<open>
  Claim C10: a form field submitted with an empty value, as in the body \<open>shortname=\<close>, is
  dropped by the form parser, so the request is handled as if the field were absent: it
  is answered 400 and changes nothing, and no empty name or URI is ever registered.

  The parser does drop the field (\<open>parse_qsl_blank_field\<close>), nothing is registered
  (\<open>run_nonblank\<close>), and a body that also holds \<open>yourname\<close> is answered 400
  (\<open>do_POST_missing_fields\<close>). The body \<open>shortname=\<close> itself, like every body made of one
  blank field, parses to the empty form: line 129 raises \<open>KeyError\<close> and no 400 is sent.
\<close>

theorem do_POST_blank_field:
  "read_body lib req = Inr (field @ ''='') \<Longrightarrow> CHR ''&'' \<notin> set field \<Longrightarrow>
   CHR ''='' \<notin> set field \<Longrightarrow> do_POST lib net req memory = (Inl KeyError, memory)"
  by (simp add: do_POST_no_yourname parse_qs_def parse_qsl_blank_field)

text \<open>The body \<open>shortname=\<close>.\<close>

theorem do_POST_blank_field_witness:
  "do_POST ascii_lib example_net (post_request ''shortname='') [] = (Inl KeyError, [])"
  using do_POST_blank_field
    [of ascii_lib "post_request ''shortname=''" "''shortname''" example_net "[]"]
  by (simp add: lib_eval)

end
